theory Spec2Isabelle
  imports Main
begin

section \<open>Python strings and truth values\<close>

text \<open>
  The module \<^verbatim>\<open>cloud/amazon/route53_zone.py\<close> is Python 2. Its strings are
  modelled as \<^typ>\<open>string\<close>, an argument that may be \<^verbatim>\<open>None\<close> as
  \<^typ>\<open>string option\<close>.
\<close>

text \<open>\<^verbatim>\<open>str.lower()\<close> on a byte string in the C locale: only A..Z change.\<close>

definition lower_char :: "char \<Rightarrow> char" where
  "lower_char c =
     (let n = (of_char c :: nat) in if 65 \<le> n \<and> n \<le> 90 then char_of (n + 32) else c)"

definition lower :: "string \<Rightarrow> string" where
  "lower s = map lower_char s"

text \<open>
  \<^verbatim>\<open>s.replace(old, new)\<close>: every occurrence of \<open>old\<close>, found from the left and
  not overlapping, becomes \<open>new\<close>; an empty \<open>old\<close> matches before every character
  and at the end.
\<close>

fun replace :: "string \<Rightarrow> string \<Rightarrow> string \<Rightarrow> string" where
  "replace [] old new = (if old = [] then new else [])"
| "replace (c # cs) old new =
     (if old = [] then new @ c # replace cs old new
      else if take (length old) (c # cs) = old
        then new @ replace (drop (length old - 1) cs) old new
      else c # replace cs old new)"

text \<open>
  Truth value of an optional string, as in \<^verbatim>\<open>if vpc_id:\<close>: \<^verbatim>\<open>None\<close> and the empty
  string are false, every other string is true.
\<close>

fun truthy :: "string option \<Rightarrow> bool" where
  "truthy None = False"
| "truthy (Some s) = (s \<noteq> [])"

text \<open>\<^verbatim>\<open>'%s' % n\<close> for an integer: its decimal digits, with a sign when negative.\<close>

fun str_nat :: "nat \<Rightarrow> string" where
  "str_nat n =
     (if n < 10 then [char_of (48 + n)] else str_nat (n div 10) @ [char_of (48 + n mod 10)])"

declare str_nat.simps [simp del]

definition str_int :: "int \<Rightarrow> string" where
  "str_int i = (if i < 0 then CHR ''-'' # str_nat (nat (- i)) else str_nat (nat i))"

text \<open>
  Lines 161-162: \<^verbatim>\<open>if zone_in[-1:] != '.': zone_in += "."\<close>. The slice
  \<^verbatim>\<open>zone_in[-1:]\<close> is the last character, and the empty string when \<open>zone_in\<close> is
  empty.
\<close>

definition normalize :: "string \<Rightarrow> string" where
  "normalize zone_in =
     (if drop (length zone_in - 1) zone_in \<noteq> ''.'' then zone_in @ ''.'' else zone_in)"


section \<open>The Route53 client\<close>

text \<open>
  The boto3 client is not part of the module; it is a parameter of the model. Its
  responses are dictionaries, of which the module reads the keys below. A key that the
  module tests with \<^verbatim>\<open>in\<close> before reading is an \<open>option\<close> field.
\<close>

datatype client_error = ClientError (Code: string) (Message: string)

record hosted_zone =
  zone_Id :: string
  zone_Name :: string
  Config_PrivateZone :: bool
  Config_Comment :: "string option"
  ResourceRecordSetCount :: int

record delegation_set_info =
  dset_Id :: "string option"
  NameServers :: "string list"

record vpc =
  VPCId :: string
  VPCRegion :: string

text \<open>The response of \<^verbatim>\<open>get_hosted_zone\<close>; \<^verbatim>\<open>create_hosted_zone\<close> adds \<^verbatim>\<open>Location\<close>.\<close>

record zone_details =
  HostedZone :: hosted_zone
  DelegationSet :: "delegation_set_info option"
  VPCs :: "vpc list option"

record create_result = zone_details +
  Location :: string

text \<open>
  The response of \<^verbatim>\<open>list_hosted_zones\<close> is one page of the listing: \<^verbatim>\<open>IsTruncated\<close>
  says that more zones follow, and \<^verbatim>\<open>NextMarker\<close> is the \<^verbatim>\<open>Marker\<close> argument that
  asks for the next page.
\<close>

record zone_page =
  HostedZones :: "hosted_zone list"
  IsTruncated :: bool
  NextMarker :: "string option"

text \<open>
  The keyword arguments of \<^verbatim>\<open>create_hosted_zone\<close>: \<^verbatim>\<open>Name\<close> and the dictionary
  \<^verbatim>\<open>record\<close> of lines 189-208.
\<close>

record create_args =
  arg_Name :: string
  CallerReference :: string
  HostedZoneConfig_Comment :: "string option"
  arg_VPC :: "vpc option"
  DelegationSetId :: "string option"

text \<open>
  Each call takes the provider's state and returns the response, or the
  \<^verbatim>\<open>botocore.exceptions.ClientError\<close> it raises, with the provider's new state.
\<close>

type_synonym ('s, 'a) api = "'s \<Rightarrow> (client_error + 'a) \<times> 's"

record 's route53 =
  list_hosted_zones :: "string option \<Rightarrow> ('s, zone_page) api"
  get_hosted_zone :: "string \<Rightarrow> ('s, zone_details) api"
  get_reusable_delegation_set :: "string \<Rightarrow> ('s, delegation_set_info) api"
  create_hosted_zone :: "create_args \<Rightarrow> ('s, create_result) api"
  delete_hosted_zone :: "string \<Rightarrow> ('s, unit) api"

text \<open>
  A run is observed through the calls it issues, in order, each with the error it
  raised, if any.
\<close>

datatype call =
    ListHostedZones "string option"
  | GetHostedZone string
  | GetReusableDelegationSet string
  | CreateHostedZone create_args
  | DeleteHostedZone string

type_synonym event = "call \<times> client_error option"

type_synonym 's world = "'s \<times> event list"

definition invoke :: "call \<Rightarrow> ('s, 'a) api \<Rightarrow> 's world \<Rightarrow> (client_error + 'a) \<times> 's world" where
  "invoke c f w =
     (case f (fst w) of
        (Inl e, s') \<Rightarrow> (Inl e, s', snd w @ [(c, Some e)])
      | (Inr a, s') \<Rightarrow> (Inr a, s', snd w @ [(c, None)]))"

fun mutating :: "call \<Rightarrow> bool" where
  "mutating (CreateHostedZone a) = True"
| "mutating (DeleteHostedZone i) = True"
| "mutating c = False"

fun listing :: "call \<Rightarrow> bool" where
  "listing (ListHostedZones m) = True"
| "listing c = False"

fun about_delegation_sets :: "call \<Rightarrow> bool" where
  "about_delegation_sets (GetReusableDelegationSet d) = True"
| "about_delegation_sets c = False"

fun deleting :: "call \<Rightarrow> bool" where
  "deleting (DeleteHostedZone i) = True"
| "deleting c = False"


section \<open>The module\<close>

datatype state = present | absent

text \<open>
  \<^verbatim>\<open>module.params\<close>: the fields are the arguments of the same names, prefixed with
  \<open>p_\<close>. The argument specification makes \<open>zone\<close> a required string and
  restricts \<open>state\<close> to the two choices.
\<close>

record params =
  p_zone :: string
  p_state :: state
  p_vpc_id :: "string option"
  p_vpc_region :: "string option"
  p_comment :: "string option"
  p_delegation_set :: "string option"

text \<open>
  What the run takes from its environment: whether boto3 could be imported, the error
  of the connection set-up of lines 170-174 if it raised one, the clock and the random
  number of line 165.
\<close>

record env =
  HAS_BOTO3 :: bool
  connect_error :: "client_error option"
  utcnow_isoformat :: string
  randint :: int

text \<open>
  Values of the result dictionary. \<^verbatim>\<open>name_servers\<close> is kept as a Python value,
  since its shape is what the module's \<^verbatim>\<open>RETURN\<close> documentation describes.
\<close>

datatype pyval = PyStr string | PyList "pyval list" | PyTuple "pyval list"

record result =
  res_zone_id :: string
  res_name :: string
  res_private_zone :: bool
  res_resource_record_set_count :: int
  res_location :: "string option"
  res_comment :: "string option"
  res_name_servers :: "pyval option"
  res_delegation_set :: "string option"
  res_vpcs :: "(string \<times> string) list option"

datatype exn = BotoClientError client_error | KeyError string

text \<open>
  A run ends in \<^verbatim>\<open>module.exit_json(changed=..., result=...)\<close>, in
  \<^verbatim>\<open>module.fail_json(msg=...)\<close>, or in an exception that nothing catches.
\<close>

datatype outcome =
    ExitJson bool "result option"
  | FailJson string
  | Uncaught exn

text \<open>
  Lines 178-187, the loop over \<^verbatim>\<open>results['HostedZones']\<close> with its \<^verbatim>\<open>else\<close>
  clause: the result is the value of \<open>zone_id\<close> after the loop, \<open>None\<close> when the
  loop ends without \<^verbatim>\<open>break\<close>. \<^verbatim>\<open>get_hosted_zone\<close> is called outside any
  \<^verbatim>\<open>try\<close>, so its error leaves the loop as an exception.
\<close>

fun find_zone ::
  "'s route53 \<Rightarrow> string \<Rightarrow> string option \<Rightarrow> hosted_zone list \<Rightarrow> 's world
     \<Rightarrow> (client_error + string option) \<times> 's world" where
  "find_zone route53 zone_in vpc_id [] w = (Inr None, w)"
| "find_zone route53 zone_in vpc_id (r53zone # rest) w =
     (if zone_Name r53zone = zone_in then
        (let zone_id = replace (zone_Id r53zone) ''/hostedzone/'' '''' in
         case invoke (GetHostedZone zone_id) (get_hosted_zone route53 zone_id) w of
           (Inl e, w') \<Rightarrow> (Inl e, w')
         | (Inr zone_details, w') \<Rightarrow>
             if truthy vpc_id \<and> VPCs zone_details \<noteq> None
                \<and> the vpc_id \<in> set (map VPCId (the (VPCs zone_details)))
             then (Inr (Some zone_id), w')
             else if \<not> truthy vpc_id \<and> VPCs zone_details = None
             then (Inr (Some zone_id), w')
             else find_zone route53 zone_in vpc_id rest w')
      else find_zone route53 zone_in vpc_id rest w)"

text \<open>
  Lines 197-208. \<open>Inl msg\<close> is \<^verbatim>\<open>module.fail_json(msg=msg)\<close>; \<open>Inr d\<close> is the value of
  the variable \<open>delegation_set\<close> after line 208.
\<close>

definition resolve_delegation_set ::
  "'s route53 \<Rightarrow> bool \<Rightarrow> string option \<Rightarrow> 's world \<Rightarrow> (string + string option) \<times> 's world" where
  "resolve_delegation_set route53 private_zone delegation_set w =
     (if truthy delegation_set then
        if private_zone then (Inl ''Cannot specify delegation_set for private zone'', w)
        else
          (let delegation_set' = ''/delegationset/'' @ the delegation_set in
           case invoke (GetReusableDelegationSet delegation_set')
                  (get_reusable_delegation_set route53 delegation_set') w of
             (Inl e, w') \<Rightarrow>
               if Code e = ''NoSuchDelegationSet''
               then (Inl ''The specified delegation set was not found'', w')
               else (Inl (Message e), w')
           | (Inr deleg_set_result, w') \<Rightarrow> (Inr (Some delegation_set'), w'))
      else (Inr delegation_set, w))"

text \<open>
  The trailing comma of lines 223 and 254 makes the right-hand side a tuple of one
  element, the list of name servers.
\<close>

definition name_servers_value :: "delegation_set_info \<Rightarrow> pyval" where
  "name_servers_value ds = PyTuple [PyList (map PyStr (NameServers ds))]"

definition vpcs_value :: "vpc list \<Rightarrow> (string \<times> string) list" where
  "vpcs_value vs = map (\<lambda>v. (VPCId v, VPCRegion v)) vs"

text \<open>
  Lines 211-234, \<^verbatim>\<open>state == 'present' and zone_id\<close>. Line 226 reads
  \<^verbatim>\<open>details['DelegationSet']\<close> without testing for the key.
\<close>

definition zone_present ::
  "'s route53 \<Rightarrow> string \<Rightarrow> string option \<Rightarrow> 's world \<Rightarrow> outcome \<times> 's world" where
  "zone_present route53 zone_id delegation_set w =
     (case invoke (GetHostedZone zone_id) (get_hosted_zone route53 zone_id) w of
        (Inl e, w') \<Rightarrow> (Uncaught (BotoClientError e), w')
      | (Inr details, w') \<Rightarrow>
          (let result = \<lparr>
                 res_zone_id = replace (zone_Id (HostedZone details)) ''/hostedzone/'' '''',
                 res_name = zone_Name (HostedZone details),
                 res_private_zone = Config_PrivateZone (HostedZone details),
                 res_resource_record_set_count = ResourceRecordSetCount (HostedZone details),
                 res_location = None,
                 res_comment = Config_Comment (HostedZone details),
                 res_name_servers = map_option name_servers_value (DelegationSet details),
                 res_delegation_set = None,
                 res_vpcs = map_option vpcs_value (VPCs details) \<rparr>
           in if truthy delegation_set then
                (case DelegationSet details of
                   None \<Rightarrow> (Uncaught (KeyError ''DelegationSet''), w')
                 | Some ds \<Rightarrow>
                     if dset_Id ds = None \<or> the (dset_Id ds) \<noteq> the delegation_set
                     then (FailJson ''Cannot change the delegation set for an existing zone'', w')
                     else (ExitJson False (Some (result\<lparr>res_delegation_set :=
                             Some (replace (the (dset_Id ds)) ''/delegationset/'' '''')\<rparr>)), w'))
              else (ExitJson False (Some result), w')))"

text \<open>Lines 237-261, \<^verbatim>\<open>state == 'present'\<close> with no zone found.\<close>

definition zone_create :: "'s route53 \<Rightarrow> create_args \<Rightarrow> 's world \<Rightarrow> outcome \<times> 's world" where
  "zone_create route53 record w =
     (case invoke (CreateHostedZone record) (create_hosted_zone route53 record) w of
        (Inl e, w') \<Rightarrow> (FailJson (Message e), w')
      | (Inr create_result, w') \<Rightarrow>
          (ExitJson True (Some \<lparr>
             res_zone_id = replace (zone_Id (HostedZone create_result)) ''/hostedzone/'' '''',
             res_name = zone_Name (HostedZone create_result),
             res_private_zone = Config_PrivateZone (HostedZone create_result),
             res_resource_record_set_count = ResourceRecordSetCount (HostedZone create_result),
             res_location = Some (Location create_result),
             res_comment = Config_Comment (HostedZone create_result),
             res_name_servers = map_option name_servers_value (DelegationSet create_result),
             res_delegation_set =
               (case DelegationSet create_result of
                  None \<Rightarrow> None
                | Some ds \<Rightarrow> map_option (\<lambda>i. replace i ''/delegationset/'' '''') (dset_Id ds)),
             res_vpcs = map_option vpcs_value (VPCs create_result) \<rparr>), w'))"

text \<open>Lines 264-265, \<^verbatim>\<open>state == 'absent' and zone_id\<close>: the call is outside any \<^verbatim>\<open>try\<close>.\<close>

definition zone_delete :: "'s route53 \<Rightarrow> string \<Rightarrow> 's world \<Rightarrow> outcome \<times> 's world" where
  "zone_delete route53 zone_id w =
     (case invoke (DeleteHostedZone zone_id) (delete_hosted_zone route53 zone_id) w of
        (Inl e, w') \<Rightarrow> (Uncaught (BotoClientError e), w')
      | (Inr u, w') \<Rightarrow> (ExitJson True None, w'))"

text \<open>Line 165.\<close>

definition caller_reference :: "env \<Rightarrow> string" where
  "caller_reference env =
     ''ansible-route53_zone-'' @ utcnow_isoformat env @ ''-'' @ str_int (randint env)"

text \<open>Line 164.\<close>

definition private_zone :: "params \<Rightarrow> bool" where
  "private_zone p = (p_vpc_id p \<noteq> None \<and> p_vpc_region p \<noteq> None)"

text \<open>Lines 154 and 161-162: the value of \<open>zone_in\<close> from line 163 on.\<close>

definition zone_in :: "params \<Rightarrow> string" where
  "zone_in p = normalize (lower (p_zone p))"

text \<open>
  The dictionary \<open>record\<close> of lines 189-195 and 208, with \<^verbatim>\<open>Name=zone_in\<close>;
  \<open>delegation_set'\<close> is the variable \<open>delegation_set\<close> after line 208.
\<close>

definition create_record :: "env \<Rightarrow> params \<Rightarrow> string option \<Rightarrow> create_args" where
  "create_record env p delegation_set' = \<lparr>
     arg_Name = zone_in p,
     CallerReference = caller_reference env,
     HostedZoneConfig_Comment = (if truthy (p_comment p) then p_comment p else None),
     arg_VPC = (if private_zone p
                then Some \<lparr>VPCId = the (p_vpc_id p), VPCRegion = the (p_vpc_region p)\<rparr> else None),
     DelegationSetId = (if truthy (p_delegation_set p) then delegation_set' else None) \<rparr>"

text \<open>
  Lines 176-187: the listing, called once and without \<^verbatim>\<open>Marker\<close>, then the loop.
  Neither call is inside a \<^verbatim>\<open>try\<close>. The result is the value of \<open>zone_id\<close> at line
  188.
\<close>

definition locate ::
  "'s route53 \<Rightarrow> params \<Rightarrow> 's \<Rightarrow> (client_error + string option) \<times> 's world" where
  "locate route53 p s =
     (case invoke (ListHostedZones None) (list_hosted_zones route53 None) (s, []) of
        (Inl e, w) \<Rightarrow> (Inl e, w)
      | (Inr results, w) \<Rightarrow>
          find_zone route53 (zone_in p) (p_vpc_id p) (HostedZones results) w)"

text \<open>
  \<^verbatim>\<open>main\<close>, lines 151-268, on the provider state \<open>s\<close>. The argument specification
  admits only \<^verbatim>\<open>present\<close> and \<^verbatim>\<open>absent\<close> for \<open>state\<close>, so the last \<^verbatim>\<open>elif\<close> of line
  267 is the remaining case. The variable \<open>zone_key\<close> of line 167 is never read.
\<close>

definition main :: "env \<Rightarrow> 's route53 \<Rightarrow> params \<Rightarrow> 's \<Rightarrow> outcome \<times> 's world" where
  "main env route53 p s =
     (if \<not> HAS_BOTO3 env then (FailJson ''boto3 required for this module'', s, [])
      else case connect_error env of
        Some e \<Rightarrow> (FailJson (Message e), s, [])
      | None \<Rightarrow>
         (case locate route53 p s of
            (Inl e, w2) \<Rightarrow> (Uncaught (BotoClientError e), w2)
          | (Inr zone_id, w2) \<Rightarrow>
             (case resolve_delegation_set route53 (private_zone p) (p_delegation_set p) w2 of
                (Inl msg, w3) \<Rightarrow> (FailJson msg, w3)
              | (Inr delegation_set', w3) \<Rightarrow>
                  if p_state p = present \<and> truthy zone_id
                    then zone_present route53 (the zone_id) delegation_set' w3
                  else if p_state p = present
                    then zone_create route53 (create_record env p delegation_set') w3
                  else if truthy zone_id
                    then zone_delete route53 (the zone_id) w3
                  else (ExitJson False None, w3))))"


section \<open>An in-memory provider\<close>

text \<open>
  A provider to run the module against. An account holds its hosted zones, in the
  order of the listing, and the identifiers of its reusable delegation sets. The
  listing is served in pages of \<open>page_size\<close> zones; a page that is not the last one
  names the zone that starts the next page. A zone that holds more than its two
  default record sets cannot be deleted.
\<close>

record account =
  acct_zones :: "zone_details list"
  acct_delegation_sets :: "string list"
  page_size :: nat

definition bare_id :: "string \<Rightarrow> string" where
  "bare_id i = replace i ''/hostedzone/'' ''''"

definition has_id :: "string \<Rightarrow> zone_details \<Rightarrow> bool" where
  "has_id i d = (bare_id (zone_Id (HostedZone d)) = bare_id i)"

definition acct_list :: "string option \<Rightarrow> (account, zone_page) api" where
  "acct_list marker a =
     (let zs = map HostedZone (acct_zones a);
          rest = (case marker of None \<Rightarrow> zs | Some m \<Rightarrow> dropWhile (\<lambda>z. zone_Id z \<noteq> m) zs)
      in (Inr \<lparr> HostedZones = take (page_size a) rest,
                IsTruncated = (page_size a < length rest),
                NextMarker = (if page_size a < length rest
                              then Some (zone_Id (rest ! page_size a)) else None) \<rparr>, a))"

definition acct_get :: "string \<Rightarrow> (account, zone_details) api" where
  "acct_get i a =
     (case find (has_id i) (acct_zones a) of
        None \<Rightarrow> (Inl (ClientError ''NoSuchHostedZone'' (''No hosted zone found with ID: '' @ i)), a)
      | Some d \<Rightarrow> (Inr d, a))"

definition acct_get_delegation_set :: "string \<Rightarrow> (account, delegation_set_info) api" where
  "acct_get_delegation_set i a =
     (if i \<in> set (acct_delegation_sets a)
      then (Inr \<lparr> dset_Id = Some i, NameServers = [''ns-1.awsdns-01.org'', ''ns-2.awsdns-02.net''] \<rparr>, a)
      else (Inl (ClientError ''NoSuchDelegationSet''
                   (''No reusable delegation set found with ID: '' @ i)), a))"

definition acct_create :: "create_args \<Rightarrow> (account, create_result) api" where
  "acct_create args a =
     (let hz = \<lparr> zone_Id = ''/hostedzone/ZNEW'' @ str_nat (length (acct_zones a)),
                 zone_Name = arg_Name args,
                 Config_PrivateZone = (arg_VPC args \<noteq> None),
                 Config_Comment = HostedZoneConfig_Comment args,
                 ResourceRecordSetCount = 2 \<rparr>;
          ds = (if arg_VPC args = None
                then Some \<lparr> dset_Id = DelegationSetId args,
                            NameServers = [''ns-1.awsdns-01.org'', ''ns-2.awsdns-02.net''] \<rparr>
                else None);
          vs = map_option (\<lambda>v. [v]) (arg_VPC args)
      in (Inr \<lparr> HostedZone = hz, DelegationSet = ds, VPCs = vs,
                Location = ''https://route53.amazonaws.com/2013-04-01'' @ zone_Id hz \<rparr>,
          a\<lparr> acct_zones := acct_zones a @ [\<lparr> HostedZone = hz, DelegationSet = ds, VPCs = vs \<rparr>] \<rparr>))"

definition acct_delete :: "string \<Rightarrow> (account, unit) api" where
  "acct_delete i a =
     (case find (has_id i) (acct_zones a) of
        None \<Rightarrow> (Inl (ClientError ''NoSuchHostedZone'' (''No hosted zone found with ID: '' @ i)), a)
      | Some d \<Rightarrow>
          if 2 < ResourceRecordSetCount (HostedZone d)
          then (Inl (ClientError ''HostedZoneNotEmpty''
                  ''The specified hosted zone contains non-required resource record sets''), a)
          else (Inr (), a\<lparr> acct_zones := filter (\<lambda>d'. \<not> has_id i d') (acct_zones a) \<rparr>))"

definition account_client :: "account route53" where
  "account_client = \<lparr>
     list_hosted_zones = acct_list,
     get_hosted_zone = acct_get,
     get_reusable_delegation_set = acct_get_delegation_set,
     create_hosted_zone = acct_create,
     delete_hosted_zone = acct_delete \<rparr>"

text \<open>Zones, requests and an environment to build examples from.\<close>

definition public_zone :: "string \<Rightarrow> string \<Rightarrow> int \<Rightarrow> zone_details" where
  "public_zone i n k = \<lparr>
     HostedZone = \<lparr> zone_Id = ''/hostedzone/'' @ i, zone_Name = n, Config_PrivateZone = False,
                    Config_Comment = None, ResourceRecordSetCount = k \<rparr>,
     DelegationSet = Some \<lparr> dset_Id = None,
                             NameServers = [''ns-1.awsdns-01.org'', ''ns-2.awsdns-02.net''] \<rparr>,
     VPCs = None \<rparr>"

definition vpc_zone :: "string \<Rightarrow> string \<Rightarrow> string \<Rightarrow> string \<Rightarrow> zone_details" where
  "vpc_zone i n v rg = \<lparr>
     HostedZone = \<lparr> zone_Id = ''/hostedzone/'' @ i, zone_Name = n, Config_PrivateZone = True,
                    Config_Comment = None, ResourceRecordSetCount = 2 \<rparr>,
     DelegationSet = None,
     VPCs = Some [\<lparr> VPCId = v, VPCRegion = rg \<rparr>] \<rparr>"

definition request :: "string \<Rightarrow> state \<Rightarrow> params" where
  "request z st = \<lparr> p_zone = z, p_state = st, p_vpc_id = None, p_vpc_region = None,
                    p_comment = Some [], p_delegation_set = None \<rparr>"

definition ready :: env where
  "ready = \<lparr> HAS_BOTO3 = True, connect_error = None,
             utcnow_isoformat = ''2016-03-01T12:00:00.000000'', randint = 123456 \<rparr>"

definition account_of :: "zone_details list \<Rightarrow> account" where
  "account_of ds = \<lparr> acct_zones = ds, acct_delegation_sets = [''/delegationset/N1''],
                     page_size = 100 \<rparr>"


section \<open>Notions used to state the properties\<close>

text \<open>The run got past the import check of line 151 and the connection set-up.\<close>

definition connected :: "env \<Rightarrow> bool" where
  "connected env = (HAS_BOTO3 env \<and> connect_error env = None)"

text \<open>No call of the trace raised an error.\<close>

definition all_ok :: "event list \<Rightarrow> bool" where
  "all_ok tr = list_all (\<lambda>ev. snd ev = None) tr"

text \<open>The calls of a trace, without their results.\<close>

definition calls :: "event list \<Rightarrow> call list" where
  "calls tr = map fst tr"

text \<open>A list of strings, the documented type of \<^verbatim>\<open>name_servers\<close>.\<close>

fun is_str :: "pyval \<Rightarrow> bool" where
  "is_str (PyStr s) = True"
| "is_str v = False"

fun list_of_strings :: "pyval \<Rightarrow> bool" where
  "list_of_strings (PyList vs) = list_all is_str vs"
| "list_of_strings v = False"

text \<open>The \<^verbatim>\<open>name_servers\<close> entry of the result a run exits with, if it has one.\<close>

fun returned_name_servers :: "outcome \<Rightarrow> pyval option" where
  "returned_name_servers (ExitJson changed (Some res)) = res_name_servers res"
| "returned_name_servers out = None"

text \<open>
  The privacy scope of a request against the details of a zone, in the words of the
  specification: a request with a VPC matches a zone that lists this VPC among its
  associated VPCs; a request without one matches a zone that has no VPC associations.
\<close>

definition scope_matches :: "string option \<Rightarrow> zone_details \<Rightarrow> bool" where
  "scope_matches vpc_id d =
     (case VPCs d of
        None \<Rightarrow> \<not> truthy vpc_id
      | Some vs \<Rightarrow> truthy vpc_id \<and> the vpc_id \<in> VPCId ` set vs)"

text \<open>
  The view of an existing zone that the specification describes: the fields of the
  provider's details, with the path prefix stripped from the zone identifier.
\<close>

definition zone_view :: "zone_details \<Rightarrow> result" where
  "zone_view d = \<lparr>
     res_zone_id = replace (zone_Id (HostedZone d)) ''/hostedzone/'' '''',
     res_name = zone_Name (HostedZone d),
     res_private_zone = Config_PrivateZone (HostedZone d),
     res_resource_record_set_count = ResourceRecordSetCount (HostedZone d),
     res_location = None,
     res_comment = Config_Comment (HostedZone d),
     res_name_servers = map_option name_servers_value (DelegationSet d),
     res_delegation_set = None,
     res_vpcs = map_option vpcs_value (VPCs d) \<rparr>"

text \<open>
  A call is a lookup of one of the zones \<open>zs\<close> that bear the name \<open>zn\<close>, by the
  identifier the loop derives from the listing entry.
\<close>

definition zone_lookup :: "string \<Rightarrow> hosted_zone list \<Rightarrow> call \<Rightarrow> bool" where
  "zone_lookup zn zs c =
     (\<exists>z\<in>set zs. zone_Name z = zn \<and> c = GetHostedZone (replace (zone_Id z) ''/hostedzone/'' ''''))"


section \<open>Calls and traces\<close>

lemma invoke_Inr:
  "invoke c f w = (Inr a, w') \<Longrightarrow> f (fst w) = (Inr a, fst w') \<and> snd w' = snd w @ [(c, None)]"
  by (auto simp: invoke_def split: prod.splits sum.splits)

lemma invoke_Inl:
  "invoke c f w = (Inl e, w') \<Longrightarrow> f (fst w) = (Inl e, fst w') \<and> snd w' = snd w @ [(c, Some e)]"
  by (auto simp: invoke_def split: prod.splits sum.splits)

lemma invoke_ok: "f s = (Inr a, s') \<Longrightarrow> invoke c f (s, tr) = (Inr a, s', tr @ [(c, None)])"
  by (simp add: invoke_def)

lemma invoke_err: "f s = (Inl e, s') \<Longrightarrow> invoke c f (s, tr) = (Inl e, s', tr @ [(c, Some e)])"
  by (simp add: invoke_def)

lemma zone_lookup_Cons: "zone_lookup zn zs c \<Longrightarrow> zone_lookup zn (z # zs) c"
  by (auto simp: zone_lookup_def)

lemma find_zone_trace:
  "find_zone r zn v zs w = (res, w') \<Longrightarrow>
     \<exists>evs. snd w' = snd w @ evs \<and> (\<forall>ev\<in>set evs. zone_lookup zn zs (fst ev)) \<and>
       (case res of Inl e \<Rightarrow> evs \<noteq> [] \<and> all_ok (butlast evs) \<and> snd (last evs) = Some e
                  | Inr z \<Rightarrow> all_ok evs)"
proof (induction zs arbitrary: w)
  case Nil
  then show ?case by (auto simp: all_ok_def)
next
  case (Cons z zs)
  show ?case
  proof (cases "zone_Name z = zn")
    case False
    with Cons.prems have "find_zone r zn v zs w = (res, w')" by simp
    from Cons.IH [OF this] show ?thesis by (blast intro: zone_lookup_Cons)
  next
    case True
    let ?i = "replace (zone_Id z) ''/hostedzone/'' ''''"
    have here: "zone_lookup zn (z # zs) (GetHostedZone ?i)"
      using True by (auto simp: zone_lookup_def)
    obtain a w1 where inv: "invoke (GetHostedZone ?i) (get_hosted_zone r ?i) w = (a, w1)"
      by (cases "invoke (GetHostedZone ?i) (get_hosted_zone r ?i) w") auto
    show ?thesis
    proof (cases a)
      case (Inl e)
      with inv Cons.prems True have "res = Inl e" "w' = w1" by auto
      moreover from inv Inl have "snd w1 = snd w @ [(GetHostedZone ?i, Some e)]"
        by (auto dest: invoke_Inl)
      ultimately show ?thesis using here by (auto simp: all_ok_def)
    next
      case (Inr d)
      with inv have tr1: "snd w1 = snd w @ [(GetHostedZone ?i, None)]"
        by (auto dest: invoke_Inr)
      show ?thesis
      proof (cases "res = Inr (Some ?i) \<and> w' = w1")
        case True
        then show ?thesis using tr1 here by (auto simp: all_ok_def)
      next
        case False
        with inv Inr Cons.prems \<open>zone_Name z = zn\<close>
        have "find_zone r zn v zs w1 = (res, w')"
          by (auto simp: Let_def split: if_splits)
        from Cons.IH [OF this] obtain evs where
          evs: "snd w' = snd w1 @ evs" "\<forall>ev\<in>set evs. zone_lookup zn zs (fst ev)"
            "case res of Inl e \<Rightarrow> evs \<noteq> [] \<and> all_ok (butlast evs) \<and> snd (last evs) = Some e
                  | Inr z \<Rightarrow> all_ok evs"
          by blast
        let ?evs = "(GetHostedZone ?i, None) # evs"
        have "snd w' = snd w @ ?evs" using evs(1) tr1 by simp
        moreover have "\<forall>ev\<in>set ?evs. zone_lookup zn (z # zs) (fst ev)"
          using evs(2) here by (auto intro: zone_lookup_Cons)
        moreover have "case res of Inl e \<Rightarrow> ?evs \<noteq> [] \<and> all_ok (butlast ?evs) \<and> snd (last ?evs) = Some e
                  | Inr z \<Rightarrow> all_ok ?evs"
          using evs(3) by (auto simp: all_ok_def split: sum.splits)
        ultimately show ?thesis by blast
      qed
    qed
  qed
qed
lemma find_zone_result:
  "find_zone r zn v zs w = (Inr (Some i), w') \<Longrightarrow>
     \<exists>z\<in>set zs. zone_Name z = zn \<and> i = replace (zone_Id z) ''/hostedzone/'' ''''"
proof (induction zs arbitrary: w)
  case Nil
  then show ?case by simp
next
  case (Cons z zs)
  then show ?case
    by (auto simp: Let_def split: if_splits prod.splits sum.splits)
qed

lemma locate_trace:
  assumes "locate r p s = (res, w')"
  shows "\<exists>x evs. snd w' = (ListHostedZones None, x) # evs \<and>
           (\<forall>ev\<in>set evs. \<exists>page s1. list_hosted_zones r None s = (Inr page, s1) \<and>
               zone_lookup (zone_in p) (HostedZones page) (fst ev)) \<and>
           (case res of
              Inl e \<Rightarrow> all_ok (butlast (snd w')) \<and> snd (last (snd w')) = Some e
            | Inr z \<Rightarrow> all_ok (snd w'))"
proof -
  obtain a w1 where inv:
    "invoke (ListHostedZones None) (list_hosted_zones r None) (s, []) = (a, w1)"
    by (cases "invoke (ListHostedZones None) (list_hosted_zones r None) (s, [])") auto
  show ?thesis
  proof (cases a)
    case (Inl e)
    with inv assms have "res = Inl e" "w' = w1" by (auto simp: locate_def)
    moreover from inv Inl have "snd w1 = [(ListHostedZones None, Some e)]"
      by (auto dest: invoke_Inl)
    ultimately show ?thesis by (auto simp: all_ok_def)
  next
    case (Inr page)
    with inv have tr1: "snd w1 = [(ListHostedZones None, None)]"
      and page: "list_hosted_zones r None s = (Inr page, fst w1)"
      by (auto dest: invoke_Inr)
    from inv Inr assms
    have "find_zone r (zone_in p) (p_vpc_id p) (HostedZones page) w1 = (res, w')"
      by (auto simp: locate_def)
    from find_zone_trace [OF this] obtain evs where
      evs: "snd w' = snd w1 @ evs"
        "\<forall>ev\<in>set evs. zone_lookup (zone_in p) (HostedZones page) (fst ev)"
        "case res of Inl e \<Rightarrow> evs \<noteq> [] \<and> all_ok (butlast evs) \<and> snd (last evs) = Some e
                  | Inr z \<Rightarrow> all_ok evs"
      by blast
    have tr: "snd w' = (ListHostedZones None, None) # evs" using evs(1) tr1 by simp
    moreover have "\<forall>ev\<in>set evs. \<exists>page s1. list_hosted_zones r None s = (Inr page, s1) \<and>
               zone_lookup (zone_in p) (HostedZones page) (fst ev)"
      using evs(2) page by blast
    moreover have "case res of
              Inl e \<Rightarrow> all_ok (butlast (snd w')) \<and> snd (last (snd w')) = Some e
            | Inr z \<Rightarrow> all_ok (snd w')"
      using evs(3) tr by (auto simp: all_ok_def split: sum.splits)
    ultimately show ?thesis by blast
  qed
qed

lemma locate_result:
  assumes "locate r p s = (Inr (Some i), w')"
  shows "\<exists>page s1 z. list_hosted_zones r None s = (Inr page, s1) \<and> z \<in> set (HostedZones page) \<and>
           zone_Name z = zone_in p \<and> i = replace (zone_Id z) ''/hostedzone/'' ''''"
proof -
  obtain a w1 where inv:
    "invoke (ListHostedZones None) (list_hosted_zones r None) (s, []) = (a, w1)"
    by (cases "invoke (ListHostedZones None) (list_hosted_zones r None) (s, [])") auto
  with assms obtain page where a: "a = Inr page"
    by (cases a) (auto simp: locate_def)
  with inv have page: "list_hosted_zones r None s = (Inr page, fst w1)"
    by (auto dest: invoke_Inr)
  from inv a assms
  have "find_zone r (zone_in p) (p_vpc_id p) (HostedZones page) w1 = (Inr (Some i), w')"
    by (auto simp: locate_def)
  from find_zone_result [OF this] page show ?thesis by blast
qed

lemma resolve_kept:
  "\<not> truthy ds \<Longrightarrow> resolve_delegation_set r priv ds w = (Inr ds, w)"
  by (simp add: resolve_delegation_set_def)

lemma resolve_private:
  "truthy ds \<Longrightarrow> priv \<Longrightarrow>
     resolve_delegation_set r priv ds w
       = (Inl ''Cannot specify delegation_set for private zone'', w)"
  by (simp add: resolve_delegation_set_def)

lemma resolve_lookup:
  assumes "truthy ds" "\<not> priv"
    and "get_reusable_delegation_set r (''/delegationset/'' @ the ds) (fst w) = (x, s')"
  shows "resolve_delegation_set r priv ds w =
     (case x of
        Inl e \<Rightarrow> Inl (if Code e = ''NoSuchDelegationSet''
                       then ''The specified delegation set was not found'' else Message e)
      | Inr i \<Rightarrow> Inr (Some (''/delegationset/'' @ the ds)),
      s',
      snd w @ [(GetReusableDelegationSet (''/delegationset/'' @ the ds),
                case x of Inl e \<Rightarrow> Some e | Inr i \<Rightarrow> None)])"
  using assms
  by (auto simp: resolve_delegation_set_def Let_def invoke_def split: sum.splits)

lemma main_elim [consumes 2, case_names raised rejected found create delete noop]:
  assumes "connected env" "main env r p s = (out, w)"
  obtains
    (raised) e where "locate r p s = (Inl e, w)" "out = Uncaught (BotoClientError e)"
  | (rejected) zid w2 msg where "locate r p s = (Inr zid, w2)"
      "resolve_delegation_set r (private_zone p) (p_delegation_set p) w2 = (Inl msg, w)"
      "out = FailJson msg"
  | (found) zid w2 ds' w3 where "locate r p s = (Inr zid, w2)"
      "resolve_delegation_set r (private_zone p) (p_delegation_set p) w2 = (Inr ds', w3)"
      "p_state p = present" "truthy zid" "zone_present r (the zid) ds' w3 = (out, w)"
  | (create) zid w2 ds' w3 where "locate r p s = (Inr zid, w2)"
      "resolve_delegation_set r (private_zone p) (p_delegation_set p) w2 = (Inr ds', w3)"
      "p_state p = present" "\<not> truthy zid" "zone_create r (create_record env p ds') w3 = (out, w)"
  | (delete) zid w2 ds' w3 where "locate r p s = (Inr zid, w2)"
      "resolve_delegation_set r (private_zone p) (p_delegation_set p) w2 = (Inr ds', w3)"
      "p_state p = absent" "truthy zid" "zone_delete r (the zid) w3 = (out, w)"
  | (noop) zid w2 ds' where "locate r p s = (Inr zid, w2)"
      "resolve_delegation_set r (private_zone p) (p_delegation_set p) w2 = (Inr ds', w)"
      "p_state p = absent" "\<not> truthy zid" "out = ExitJson False None"
proof -
  obtain a w2 where loc: "locate r p s = (a, w2)" by (cases "locate r p s") auto
  show ?thesis
  proof (cases a)
    case (Inl e)
    with loc assms show ?thesis
      by (intro raised [of e]) (auto simp: main_def connected_def)
  next
    case (Inr zid)
    obtain b w3 where res:
      "resolve_delegation_set r (private_zone p) (p_delegation_set p) w2 = (b, w3)"
      by (cases "resolve_delegation_set r (private_zone p) (p_delegation_set p) w2") auto
    show ?thesis
    proof (cases b)
      case (Inl msg)
      with loc Inr res assms show ?thesis
        by (intro rejected [of zid w2 msg]) (auto simp: main_def connected_def)
    next
      case ds: (Inr ds')
      from loc Inr res ds assms have m:
        "(out, w) = (if p_state p = present \<and> truthy zid then zone_present r (the zid) ds' w3
           else if p_state p = present then zone_create r (create_record env p ds') w3
           else if truthy zid then zone_delete r (the zid) w3
           else (ExitJson False None, w3))"
        by (auto simp: main_def connected_def)
      have st: "p_state p \<noteq> present \<Longrightarrow> p_state p = absent" by (cases "p_state p") auto
      consider "p_state p = present" "truthy zid" | "p_state p = present" "\<not> truthy zid"
        | "p_state p = absent" "truthy zid" | "p_state p = absent" "\<not> truthy zid"
        using st by blast
      then show ?thesis
      proof cases
        case 1
        with m loc Inr res ds show ?thesis by (intro found [of zid w2 ds' w3]) auto
      next
        case 2
        with m loc Inr res ds show ?thesis by (intro create [of zid w2 ds' w3]) auto
      next
        case 3
        with m loc Inr res ds show ?thesis by (intro delete [of zid w2 ds' w3]) auto
      next
        case 4
        with m loc Inr res ds show ?thesis by (intro noop [of zid w2 ds']) auto
      qed
    qed
  qed
qed
lemma resolve_shape:
  assumes "resolve_delegation_set r priv ds w = (res, w')"
  shows "(snd w' = snd w \<and>
            (case res of
               Inl msg \<Rightarrow> truthy ds \<and> priv \<and> msg = ''Cannot specify delegation_set for private zone''
             | Inr d \<Rightarrow> \<not> truthy ds \<and> d = ds \<and> w' = w))
       \<or> (\<exists>x. snd w' = snd w @ [(GetReusableDelegationSet (''/delegationset/'' @ the ds), x)] \<and>
             truthy ds \<and> \<not> priv \<and>
             (case x of
                None \<Rightarrow> res = Inr (Some (''/delegationset/'' @ the ds))
              | Some e \<Rightarrow> res = Inl (if Code e = ''NoSuchDelegationSet''
                                       then ''The specified delegation set was not found''
                                       else Message e)))"
  using assms
  by (auto simp: resolve_delegation_set_def Let_def invoke_def
           split: if_splits prod.splits sum.splits)

lemma zone_present_shape:
  assumes "zone_present r i ds w = (out, w')"
  shows "\<exists>x. snd w' = snd w @ [(GetHostedZone i, x)] \<and>
           (\<forall>e. x = Some e \<longrightarrow> out = Uncaught (BotoClientError e))"
  using assms
  by (auto simp: zone_present_def Let_def invoke_def
           split: if_splits prod.splits sum.splits option.splits)

lemma zone_create_shape:
  assumes "zone_create r a w = (out, w')"
  shows "\<exists>x. snd w' = snd w @ [(CreateHostedZone a, x)] \<and>
           (\<forall>e. x = Some e \<longrightarrow> out = FailJson (Message e))"
  using assms
  by (auto simp: zone_create_def invoke_def split: prod.splits sum.splits)

lemma zone_delete_shape:
  assumes "zone_delete r i w = (out, w')"
  shows "\<exists>x. snd w' = snd w @ [(DeleteHostedZone i, x)] \<and>
           (\<forall>e. x = Some e \<longrightarrow> out = Uncaught (BotoClientError e))"
  using assms
  by (auto simp: zone_delete_def invoke_def split: prod.splits sum.splits)

text \<open>
  What a run has issued when it reaches the branch on \<open>state\<close>: the listing, the
  lookups of the loop, and the lookup of the delegation set if one was requested; all
  of them succeeded.
\<close>

lemma before_branch:
  assumes loc: "locate r p s = (Inr zid, w2)"
    and res: "resolve_delegation_set r priv ds w2 = (Inr ds', w3)"
  shows "\<exists>evs dl. snd w3 = (ListHostedZones None, None) # evs @ dl \<and>
           (\<forall>ev\<in>set evs. snd ev = None \<and>
              (\<exists>page s1. list_hosted_zones r None s = (Inr page, s1) \<and>
                 zone_lookup (zone_in p) (HostedZones page) (fst ev))) \<and>
           (dl = [] \<and> \<not> truthy ds
            \<or> dl = [(GetReusableDelegationSet (''/delegationset/'' @ the ds), None)]
               \<and> truthy ds \<and> \<not> priv)"
proof -
  from locate_trace [OF loc] obtain x evs where
    tr2: "snd w2 = (ListHostedZones None, x) # evs"
    and look: "\<forall>ev\<in>set evs. \<exists>page s1. list_hosted_zones r None s = (Inr page, s1) \<and>
               zone_lookup (zone_in p) (HostedZones page) (fst ev)"
    and ok: "all_ok (snd w2)"
    by auto
  from tr2 ok have x: "x = None" and oks: "\<forall>ev\<in>set evs. snd ev = None"
    by (auto simp: all_ok_def list_all_iff)
  from resolve_shape [OF res]
  have "snd w3 = snd w2 \<and> \<not> truthy ds
      \<or> snd w3 = snd w2 @ [(GetReusableDelegationSet (''/delegationset/'' @ the ds), None)]
          \<and> truthy ds \<and> \<not> priv"
    by (auto split: option.splits)
  with tr2 x look oks show ?thesis by auto
qed

section \<open>Normalisation of the zone name\<close>

lemma last_slice_dot: "drop (length (z @ ''.'') - 1) (z @ ''.'') = ''.''"
  by simp

text \<open>
  C4. Appending the trailing dot when it is absent (lines 161-162) is idempotent:
  normalising a normalised zone name changes nothing.
\<close>

theorem normalize_idempotent: "normalize (normalize z) = normalize z"
  unfolding normalize_def using last_slice_dot [of z] by simp

text \<open>
  C3, as amended. A provider call that fails is the last call of the run: nothing is
  retried and nothing is issued after it. When the failing call is the creation of the
  zone, the run ends in a failure result that carries the provider's message. When it
  is the lookup of the delegation set, the run ends in a failure result that carries
  the provider's message, unless the error code is \<^verbatim>\<open>NoSuchDelegationSet\<close>, for which the
  module reports a message of its own.
\<close>

theorem provider_failure_is_terminal:
  assumes "connected env" and "main env r p s = (out, s', tr)"
  shows "tr \<noteq> [] \<and> all_ok (butlast tr) \<and>
         (\<forall>a e. last tr = (CreateHostedZone a, Some e) \<longrightarrow> out = FailJson (Message e)) \<and>
         (\<forall>d e. last tr = (GetReusableDelegationSet d, Some e) \<longrightarrow>
            out = FailJson (if Code e = ''NoSuchDelegationSet''
                            then ''The specified delegation set was not found''
                            else Message e))"
  using assms
proof (cases rule: main_elim)
  case (raised e)
  from locate_trace [OF raised(1)] obtain x evs where
    tr: "tr = (ListHostedZones None, x) # evs"
    and look: "\<forall>ev\<in>set evs. \<exists>page s1. list_hosted_zones r None s = (Inr page, s1) \<and>
               zone_lookup (zone_in p) (HostedZones page) (fst ev)"
    and ok: "all_ok (butlast tr)"
    by auto
  have "\<exists>i y. last tr = (ListHostedZones None, y) \<or> last tr = (GetHostedZone i, y)"
  proof (cases evs rule: rev_cases)
    case Nil
    with tr show ?thesis by simp
  next
    case (snoc evs' ev)
    with look have "\<exists>i. fst ev = GetHostedZone i" by (auto simp: zone_lookup_def)
    with tr snoc show ?thesis by (cases ev) auto
  qed
  with tr ok show ?thesis by auto
next
  case (rejected zid w2 msg)
  from locate_trace [OF rejected(1)] obtain x evs where
    tr2: "snd w2 = (ListHostedZones None, x) # evs" and ok: "all_ok (snd w2)"
    by auto
  from resolve_shape [OF rejected(2)]
  consider "tr = snd w2" "msg = ''Cannot specify delegation_set for private zone''"
    | e where "tr = snd w2 @ [(GetReusableDelegationSet
                  (''/delegationset/'' @ the (p_delegation_set p)), Some e)]"
        "msg = (if Code e = ''NoSuchDelegationSet''
                then ''The specified delegation set was not found'' else Message e)"
    by (auto split: option.splits)
  then show ?thesis
  proof cases
    case 1
    from ok tr2 have "snd (last (snd w2)) = None" "all_ok (butlast (snd w2))"
      by (auto simp: all_ok_def list_all_iff dest: in_set_butlastD)
    with 1 tr2 show ?thesis by auto
  next
    case 2
    with ok rejected(3) show ?thesis by auto
  qed
next
  case (found zid w2 ds' w3)
  from before_branch [OF found(1,2)] have "all_ok (snd w3)"
    by (auto simp: all_ok_def list_all_iff)
  with zone_present_shape [OF found(5)] show ?thesis by auto
next
  case (create zid w2 ds' w3)
  from before_branch [OF create(1,2)] have "all_ok (snd w3)"
    by (auto simp: all_ok_def list_all_iff)
  with zone_create_shape [OF create(5)] show ?thesis by auto
next
  case (delete zid w2 ds' w3)
  from before_branch [OF delete(1,2)] have "all_ok (snd w3)"
    by (auto simp: all_ok_def list_all_iff)
  with zone_delete_shape [OF delete(5)] show ?thesis by auto
next
  case (noop zid w2 ds')
  from before_branch [OF noop(1,2)] have tr: "tr \<noteq> []" and ok: "all_ok tr"
    by (auto simp: all_ok_def list_all_iff)
  then have "snd (last tr) = None" "all_ok (butlast tr)"
    by (auto simp: all_ok_def list_all_iff dest: in_set_butlastD)
  with tr show ?thesis by auto
qed
end
